theory Spec2Isabelle
  imports
    Complex_Main
    "HOL-Library.Char_ord"
    "HOL-Library.List_Lexorder"
    "HOL-Library.Multiset"
    "HOL-Library.Product_Lexorder"
    "HOL-Library.Sublist"
begin

section \<open>The Superstore sales dashboard: filter, aggregate, export\<close>

text \<open>
  The program is one script, \<^verbatim>\<open>app.py\<close>: it loads a table of retail transactions,
  filters it by the sidebar's widgets, and computes a fixed catalogue of summaries from the
  filtered table. Every computation is a call into the dataframe library, so the embedding
  gives each library call the library's documented meaning, as a function on lists of rows:
  a table is the list of its rows in row order, a column is a field of the row record, a
  boolean mask is a predicate on rows.

  Numbers. The columns \<^verbatim>\<open>Sales\<close>, \<^verbatim>\<open>Profit\<close> and \<^verbatim>\<open>Discount\<close> hold finite
  amounts, modelled as exact rationals: rounding and overflow of binary floating point are
  not modelled. A division can leave the finite numbers (a sale of zero), so every column
  that is the result of a division holds a value of the type \<open>fnum\<close> below, which adds
  the two infinities and NaN to the rationals with the arithmetic of IEEE 754 on them.
  Signed zeros are not modelled: zero is the positive zero.

  Sums. \<^verbatim>\<open>Series.sum()\<close> and \<^verbatim>\<open>groupby().sum()\<close> are two reductions of the library
  over 64-bit floats. They do not add in the same order, so over the same numbers they can
  round to different results. Where the script's sums are compared with one another, the
  total of a column with its grouped sums, the reduction is therefore a parameter of the
  definitions: \<open>total_sales\<close>, \<open>groupby_sum\<close> and the summaries built on them take
  the reduction they call as their first argument, and \<open>sum_list\<close>, the exact sum, is one
  reduction among others.

  Missing cells. \<^verbatim>\<open>read_csv\<close> reads an empty field as a missing value, and
  \<^verbatim>\<open>groupby\<close> leaves out the rows whose key is missing. The model has missing values
  in the columns \<^verbatim>\<open>Product Name\<close> and \<^verbatim>\<open>Customer Name\<close>, which the script only
  groups by and exports: a cell of these columns is \<open>None\<close> when it is missing. In the
  other columns every row has a value.
\<close>

subsection \<open>Floating-point values with infinities and NaN\<close>

datatype fnum = Fin rat | PInf | NInf | NaN

fun isnan :: "fnum \<Rightarrow> bool" where
  "isnan NaN = True"
| "isnan _ = False"

fun isfinite :: "fnum \<Rightarrow> bool" where
  "isfinite (Fin _) = True"
| "isfinite _ = False"

text \<open>\<open>fneg\<close> is the sign flip; it serves the sign rules of division and product.\<close>

fun fneg :: "fnum \<Rightarrow> fnum" where
  "fneg (Fin x) = Fin (- x)"
| "fneg PInf = NInf"
| "fneg NInf = PInf"
| "fneg NaN = NaN"

fun fadd :: "fnum \<Rightarrow> fnum \<Rightarrow> fnum" where
  "fadd (Fin x) (Fin y) = Fin (x + y)"
| "fadd NaN _ = NaN"
| "fadd _ NaN = NaN"
| "fadd PInf NInf = NaN"
| "fadd NInf PInf = NaN"
| "fadd PInf _ = PInf"
| "fadd _ PInf = PInf"
| "fadd NInf _ = NInf"
| "fadd _ NInf = NInf"

text \<open>
  Division of floats never raises: a finite non-zero number divided by zero is an
  infinity of its sign, zero divided by zero is NaN.
\<close>

fun fdiv :: "fnum \<Rightarrow> fnum \<Rightarrow> fnum" where
  "fdiv (Fin x) (Fin y) =
     (if y \<noteq> 0 then Fin (x / y)
      else if x = 0 then NaN
      else if 0 < x then PInf else NInf)"
| "fdiv NaN _ = NaN"
| "fdiv _ NaN = NaN"
| "fdiv (Fin x) _ = Fin 0"
| "fdiv PInf (Fin y) = (if 0 \<le> y then PInf else NInf)"
| "fdiv NInf (Fin y) = (if 0 \<le> y then NInf else PInf)"
| "fdiv _ _ = NaN"

fun fmul :: "fnum \<Rightarrow> fnum \<Rightarrow> fnum" where
  "fmul (Fin x) (Fin y) = Fin (x * y)"
| "fmul NaN _ = NaN"
| "fmul _ NaN = NaN"
| "fmul (Fin x) i = (if x = 0 then NaN else if 0 < x then i else fneg i)"
| "fmul i (Fin y) = (if y = 0 then NaN else if 0 < y then i else fneg i)"
| "fmul PInf i = i"
| "fmul NInf i = fneg i"

definition fsum :: "fnum list \<Rightarrow> fnum" where
  "fsum xs = foldl fadd (Fin 0) xs"

text \<open>
  \<^verbatim>\<open>Series.mean()\<close> with the default \<^verbatim>\<open>skipna=True\<close>: the values that are NaN are
  left out, the others (infinities included) are summed and divided by their number; with
  no value left the mean is NaN.
\<close>

definition mean :: "fnum list \<Rightarrow> fnum" where
  "mean xs =
     (let ys = filter (\<lambda>x. \<not> isnan x) xs
      in if ys = [] then NaN else fdiv (fsum ys) (Fin (of_nat (length ys))))"

subsection \<open>Timestamps\<close>

text \<open>
  Both date columns are parsed with the format \<^verbatim>\<open>%d/%m/%Y\<close>, and the sidebar's dates
  are converted with \<^verbatim>\<open>pd.to_datetime\<close>: every timestamp of the program is a midnight.
  A timestamp is modelled as the number of its day, counted from 1970-01-01.
  \<open>civil\<close> gives the year, month and day of a day number in the proleptic Gregorian
  calendar, for the accessors \<^verbatim>\<open>.dt.year\<close>, \<^verbatim>\<open>.dt.month\<close> and
  \<^verbatim>\<open>.dt.to_period('M')\<close>.
\<close>

type_synonym timestamp = int

definition civil :: "timestamp \<Rightarrow> int \<times> int \<times> int" where
  "civil z0 =
     (let z = z0 + 719468;
          era = z div 146097;
          doe = z - era * 146097;
          yoe = (doe - doe div 1460 + doe div 36524 - doe div 146096) div 365;
          doy = doe - (365 * yoe + yoe div 4 - yoe div 100);
          mp = (5 * doy + 2) div 153;
          d = doy - (153 * mp + 2) div 5 + 1;
          m = (if mp < 10 then mp + 3 else mp - 9);
          y = yoe + era * 400 + (if m \<le> 2 then 1 else 0)
      in (y, m, d))"

definition dt_year :: "timestamp \<Rightarrow> int" where
  "dt_year t = fst (civil t)"

definition dt_month :: "timestamp \<Rightarrow> int" where
  "dt_month t = fst (snd (civil t))"

text \<open>A monthly period is its year and month; periods are ordered by year, then month.\<close>

type_synonym period = "int \<times> int"

definition to_period_M :: "timestamp \<Rightarrow> period" where
  "to_period_M t = (dt_year t, dt_month t)"

text \<open>\<^verbatim>\<open>.dt.days\<close> of a difference of two timestamps: the whole days between them.\<close>

definition days_between :: "timestamp \<Rightarrow> timestamp \<Rightarrow> int" where
  "days_between later earlier = later - earlier"

subsection \<open>The table of transactions\<close>

text \<open>
  Modelled from the spec: the data file \<^verbatim>\<open>src/data/Superstore.csv\<close> is not part of the
  sources; its columns are the ones the interface section of the specification lists, in
  that order. \<open>csv_row\<close> is a row as \<^verbatim>\<open>read_csv\<close> and the two date conversions of
  \<^verbatim>\<open>load_data\<close> leave it.
\<close>

record csv_row =
  Order_Date :: timestamp
  Ship_Date :: timestamp
  Ship_Mode :: string
  Region :: string
  Category :: string
  Segment :: string
  State :: string
  City :: string
  Product_Name :: "string option"
  Sub_Category :: string
  Customer_Name :: "string option"
  Customer_ID :: string
  Order_ID :: string
  Sales :: rat
  Profit :: rat
  Quantity :: int
  Discount :: rat

text \<open>The four derived columns \<^verbatim>\<open>load_data\<close> adds, in the order it adds them.\<close>

record row = csv_row +
  Year :: int
  Month :: int
  Month_Year :: period
  Profit_Margin :: fnum

definition derive :: "csv_row \<Rightarrow> row" where
  "derive r =
     csv_row.extend r
       (row.fields
          (dt_year (Order_Date r))
          (dt_month (Order_Date r))
          (to_period_M (Order_Date r))
          (fmul (fdiv (Fin (Profit r)) (Fin (Sales r))) (Fin 100)))"

definition load_data :: "csv_row list \<Rightarrow> row list" where
  "load_data csv = map derive csv"

subsection \<open>The sidebar and the filter\<close>

text \<open>
  The values of the five widgets. \<^verbatim>\<open>st.date_input\<close> returns a tuple of dates, which
  holds fewer than two dates while the user is still choosing; the multiselects return lists.
\<close>

record sidebar =
  date_range :: "timestamp list"
  regions :: "string list"
  categories :: "string list"
  segments :: "string list"
  states :: "string list"

datatype py_error = IndexError

text \<open>\<^verbatim>\<open>Series.isin(values)\<close>, row by row.\<close>

definition isin :: "'a \<Rightarrow> 'a list \<Rightarrow> bool" where
  "isin x values = (x \<in> set values)"

text \<open>The mask of lines 104 to 108, for the two timestamps of the date range.\<close>

definition mask :: "timestamp \<Rightarrow> timestamp \<Rightarrow> sidebar \<Rightarrow> 'a row_scheme \<Rightarrow> bool" where
  "mask d0 d1 sb r =
     (Order_Date r \<ge> d0 \<and>
      Order_Date r \<le> d1 \<and>
      isin (Region r) (regions sb) \<and>
      isin (Category r) (categories sb) \<and>
      isin (Segment r) (segments sb))"

text \<open>
  Lines 103 to 112. \<^verbatim>\<open>date_range[0]\<close> and \<^verbatim>\<open>date_range[1]\<close> raise IndexError on a
  tuple that is too short; \<^verbatim>\<open>if states:\<close> is true of a non-empty list.
\<close>

definition filtered_df :: "'a row_scheme list \<Rightarrow> sidebar \<Rightarrow> py_error + 'a row_scheme list" where
  "filtered_df df sb =
     (if length (date_range sb) < 2 then Inl IndexError
      else
        let filtered = filter (mask (date_range sb ! 0) (date_range sb ! 1) sb) df
        in if states sb \<noteq> []
           then Inr (filter (\<lambda>r. isin (State r) (states sb)) filtered)
           else Inr filtered)"

subsection \<open>Scalar metrics\<close>


definition total_profit :: "(rat list \<Rightarrow> rat) \<Rightarrow> 'a row_scheme list \<Rightarrow> rat" where
  "total_profit series_sum view = series_sum (map Profit view)"

text \<open>\<^verbatim>\<open>Series.nunique()\<close>: the number of distinct values.\<close>

definition nunique :: "'a list \<Rightarrow> nat" where
  "nunique xs = length (remdups xs)"

definition total_orders :: "'a row_scheme list \<Rightarrow> nat" where
  "total_orders view = nunique (map Order_ID view)"

definition avg_profit_margin :: "'a row_scheme list \<Rightarrow> fnum" where
  "avg_profit_margin view = mean (map Profit_Margin view)"

text \<open>
  The mean the specification words: the mean of the finite margins only. The script does
  not compute it; it stands here to be compared with \<open>avg_profit_margin\<close>.
\<close>

definition finite_margin_mean :: "'a row_scheme list \<Rightarrow> fnum" where
  "finite_margin_mean view = mean (filter isfinite (map Profit_Margin view))"

subsection \<open>Grouped summaries\<close>

text \<open>
  \<^verbatim>\<open>DataFrame.groupby(key)\<close> with its defaults (\<^verbatim>\<open>sort=True\<close>, \<^verbatim>\<open>dropna=True\<close>):
  one group for each distinct value of the key that is not missing, the groups in ascending
  order of the key, the rows of a group in the order they have in the table. A row whose
  key is missing is in no group. The key of a row is \<open>None\<close> when it is missing.
\<close>

definition groupby :: "('r \<Rightarrow> 'k::linorder option) \<Rightarrow> 'r list \<Rightarrow> ('k \<times> 'r list) list" where
  "groupby key df =
     map (\<lambda>k. (k, filter (\<lambda>r. key r = Some k) df)) (sort (remdups (List.map_filter key df)))"

text \<open>The key of a column in which no cell is missing.\<close>

definition present :: "('r \<Rightarrow> 'k) \<Rightarrow> 'r \<Rightarrow> 'k option" where
  "present column r = Some (column r)"

text \<open>
  \<^verbatim>\<open>groupby(key)[col].sum().reset_index()\<close>: the columns are the key and the sum.
  \<open>group_sum\<close> is the reduction \<^verbatim>\<open>groupby().sum()\<close> applies to the cells of a group.
\<close>

definition groupby_sum ::
  "(rat list \<Rightarrow> rat) \<Rightarrow> ('r \<Rightarrow> 'k::linorder option) \<Rightarrow> ('r \<Rightarrow> rat) \<Rightarrow> 'r list \<Rightarrow> ('k \<times> rat) list" where
  "groupby_sum group_sum key col df =
     map (\<lambda>(k, g). (k, group_sum (map col g))) (groupby key df)"

text \<open>
  \<^verbatim>\<open>groupby(key).agg({'Sales': 'sum', 'Profit': 'sum', 'Order ID': 'nunique'}).reset_index()\<close>:
  the columns are the key, \<^verbatim>\<open>Sales\<close>, \<^verbatim>\<open>Profit\<close> and \<^verbatim>\<open>Order ID\<close>.
\<close>

definition agg_sales_profit_orders ::
  "(rat list \<Rightarrow> rat) \<Rightarrow> ('a row_scheme \<Rightarrow> 'k::linorder option) \<Rightarrow> 'a row_scheme list \<Rightarrow>
     ('k \<times> rat \<times> rat \<times> nat) list" where
  "agg_sales_profit_orders group_sum key df =
     map (\<lambda>(k, g). (k, group_sum (map Sales g), group_sum (map Profit g), nunique (map Order_ID g)))
       (groupby key df)"




definition state_sales :: "(rat list \<Rightarrow> rat) \<Rightarrow> 'a row_scheme list \<Rightarrow> (string \<times> rat) list" where
  "state_sales group_sum view = groupby_sum group_sum (present State) Sales view"

text \<open>
  \<^verbatim>\<open>nlargest(n, col)\<close> with the default \<^verbatim>\<open>keep='first'\<close>: the first \<open>n\<close> rows in
  descending order of the column, rows of equal value in the order they have in the table;
  no row when \<open>n\<close> is not positive.
\<close>

definition nlargest :: "int \<Rightarrow> ('r \<Rightarrow> rat) \<Rightarrow> 'r list \<Rightarrow> 'r list" where
  "nlargest n col t = take (nat n) (sort_key (\<lambda>r. - col r) t)"

definition top_states :: "(rat list \<Rightarrow> rat) \<Rightarrow> 'a row_scheme list \<Rightarrow> (string \<times> rat) list" where
  "top_states group_sum view = nlargest 10 snd (state_sales group_sum view)"


text \<open>Line 257, before the top ten are taken: the sales of each product.\<close>

definition product_sales :: "(rat list \<Rightarrow> rat) \<Rightarrow> 'a row_scheme list \<Rightarrow> (string \<times> rat) list" where
  "product_sales group_sum view = groupby_sum group_sum Product_Name Sales view"

definition top_products :: "(rat list \<Rightarrow> rat) \<Rightarrow> 'a row_scheme list \<Rightarrow> (string \<times> rat) list" where
  "top_products group_sum view = nlargest 10 snd (product_sales group_sum view)"

text \<open>
  Lines 272 to 276: the columns are \<^verbatim>\<open>Sub-Category\<close>, \<^verbatim>\<open>Sales\<close>, \<^verbatim>\<open>Profit\<close> and
  the \<^verbatim>\<open>Profit Margin\<close> computed from the two sums. The sums are the exact ones here.
\<close>

definition subcat_data :: "'a row_scheme list \<Rightarrow> (string \<times> rat \<times> rat \<times> fnum) list" where
  "subcat_data view =
     map (\<lambda>(k, g).
            let s = sum_list (map Sales g); p = sum_list (map Profit g)
            in (k, s, p, fmul (fdiv (Fin p) (Fin s)) (Fin 100)))
       (groupby (present Sub_Category) view)"


subsection \<open>Shipping days\<close>

text \<open>Line 312 adds the column \<^verbatim>\<open>Shipping Days\<close> to the filtered table.\<close>

record shipped_row = row +
  Shipping_Days :: int

definition with_shipping_days :: "row list \<Rightarrow> shipped_row list" where
  "with_shipping_days view =
     map (\<lambda>r. row.extend r (shipped_row.fields (days_between (Ship_Date r) (Order_Date r)))) view"

text \<open>Line 313: the mean of an integer column is a float.\<close>

definition ship_time :: "shipped_row list \<Rightarrow> (string \<times> fnum) list" where
  "ship_time view =
     map (\<lambda>(k, g). (k, mean (map (\<lambda>r. Fin (of_int (Shipping_Days r))) g)))
       (groupby (present Ship_Mode) view)"

subsection \<open>Customers and locations\<close>

text \<open>Line 332, before the top ten are taken: the sales of each customer.\<close>

definition customer_name_sales ::
  "(rat list \<Rightarrow> rat) \<Rightarrow> 'a row_scheme list \<Rightarrow> (string \<times> rat) list" where
  "customer_name_sales group_sum view = groupby_sum group_sum Customer_Name Sales view"

definition customer_sales :: "(rat list \<Rightarrow> rat) \<Rightarrow> 'a row_scheme list \<Rightarrow> (string \<times> rat) list" where
  "customer_sales group_sum view = nlargest 10 snd (customer_name_sales group_sum view)"

definition customer_dist :: "'a row_scheme list \<Rightarrow> ((string \<times> string) \<times> nat) list" where
  "customer_dist view =
     map (\<lambda>(k, g). (k, nunique (map Customer_ID g)))
       (groupby (present (\<lambda>r. (Segment r, Region r))) view)"

definition city_data ::
  "(rat list \<Rightarrow> rat) \<Rightarrow> 'a row_scheme list \<Rightarrow> ((string \<times> string) \<times> rat \<times> rat \<times> nat) list" where
  "city_data group_sum view =
     agg_sales_profit_orders group_sum (present (\<lambda>r. (State r, City r))) view"

text \<open>Lines 367 and 368: the fifteen largest, with the column \<^verbatim>\<open>Location\<close> added last.\<close>

definition top_cities ::
  "(rat list \<Rightarrow> rat) \<Rightarrow> 'a row_scheme list \<Rightarrow>
     (((string \<times> string) \<times> rat \<times> rat \<times> nat) \<times> string) list" where
  "top_cities group_sum view =
     map (\<lambda>c. (c, snd (fst c) @ '', '' @ fst (fst c)))
       (nlargest 15 (\<lambda>c. fst (snd c)) (city_data group_sum view))"

text \<open>
  Lines 410 to 415: the columns are \<^verbatim>\<open>Category\<close>, \<^verbatim>\<open>Sub-Category\<close>, \<^verbatim>\<open>Region\<close>,
  \<^verbatim>\<open>Sales\<close>, \<^verbatim>\<open>Profit\<close>, \<^verbatim>\<open>Quantity\<close> and \<^verbatim>\<open>Order ID\<close>. The sums are the
  exact ones here.
\<close>

definition agg_data ::
  "'a row_scheme list \<Rightarrow> ((string \<times> string \<times> string) \<times> rat \<times> rat \<times> int \<times> nat) list" where
  "agg_data view =
     map (\<lambda>(k, g). (k, sum_list (map Sales g), sum_list (map Profit g),
                     sum_list (map Quantity g), nunique (map Order_ID g)))
       (groupby (present (\<lambda>r. (Category r, Sub_Category r, Region r))) view)"

subsection \<open>The script and its store\<close>

text \<open>
  The script binds two names to tables, \<^verbatim>\<open>df\<close> and \<^verbatim>\<open>filtered_df\<close>, and line 312
  assigns a column of \<^verbatim>\<open>filtered_df\<close> in place. Whether that assignment reaches the
  loaded table depends on which object each name is bound to, so the script is modelled on
  a store of table objects. Indexing a table with a boolean mask builds a new table object
  that holds copies of the selected rows; assigning a column changes the object the name
  is bound to.
\<close>

type_synonym addr = nat

datatype frame = Frame "row list" | Shipped "shipped_row list"

fun frame_rows :: "frame \<Rightarrow> row list" where
  "frame_rows (Frame rs) = rs"
| "frame_rows (Shipped rs) = map row.truncate rs"

record store =
  heap :: "addr \<Rightarrow> frame option"
  next_addr :: addr

definition empty_store :: store where
  "empty_store = \<lparr>heap = (\<lambda>a. None), next_addr = 0\<rparr>"

definition new_frame :: "store \<Rightarrow> frame \<Rightarrow> store \<times> addr" where
  "new_frame st f =
     (st\<lparr>heap := (heap st)(next_addr st \<mapsto> f), next_addr := Suc (next_addr st)\<rparr>, next_addr st)"

text \<open>\<^verbatim>\<open>t[mask]\<close>: a new table of the rows of \<open>t\<close> the mask selects.\<close>

definition getitem :: "store \<Rightarrow> addr \<Rightarrow> (row \<Rightarrow> bool) \<Rightarrow> store \<times> addr" where
  "getitem st a p = new_frame st (Frame (filter p (frame_rows (the (heap st a)))))"

text \<open>\<^verbatim>\<open>t['Shipping Days'] = (t['Ship Date'] - t['Order Date']).dt.days\<close>, in place.\<close>

definition setitem_shipping_days :: "store \<Rightarrow> addr \<Rightarrow> store" where
  "setitem_shipping_days st a =
     st\<lparr>heap := (heap st)(a \<mapsto> Shipped (with_shipping_days (frame_rows (the (heap st a)))))\<rparr>"

text \<open>
  What a run of the script leaves: the store, the objects the two names are bound to, and
  the messages it has passed to \<^verbatim>\<open>st.warning\<close>. The only call of \<^verbatim>\<open>st.warning\<close> is
  the one of line 436, in the branch of the empty table.
\<close>

record outcome =
  store_after :: store
  df_addr :: addr
  filtered_addr :: addr
  warnings :: "string list"

definition no_data_message :: string where
  "no_data_message =
     ''No data available for the selected filters. Please adjust your filter criteria.''"

definition app :: "csv_row list \<Rightarrow> sidebar \<Rightarrow> py_error + outcome" where
  "app raw sb =
     (let (st0, df) = new_frame empty_store (Frame (load_data raw))
      in if length (date_range sb) < 2 then Inl IndexError
         else
           let (st1, f1) = getitem st0 df (mask (date_range sb ! 0) (date_range sb ! 1) sb);
               (st2, f2) =
                 (if states sb \<noteq> [] then getitem st1 f1 (\<lambda>r. isin (State r) (states sb))
                  else (st1, f1))
           in if frame_rows (the (heap st2 f2)) \<noteq> []
              then Inr \<lparr>store_after = setitem_shipping_days st2 f2, df_addr = df,
                        filtered_addr = f2, warnings = []\<rparr>
              else Inr \<lparr>store_after = st2, df_addr = df,
                        filtered_addr = f2, warnings = [no_data_message]\<rparr>)"

subsection \<open>Export\<close>

text \<open>
  A table as \<^verbatim>\<open>to_csv\<close> sees it: the column names, the row index (one label for each
  row) and the cells of the rows. The export is modelled up to the fields of each line:
  a line is the list of its fields, the header line first. How a field is written as text
  (the digits of a float, the quoting of a comma) is not modelled.
\<close>

datatype cell = CStr string | CNum rat | CFloat fnum | CInt int | CDate timestamp | CPeriod period

record table =
  columns :: "string list"
  index :: "cell list"
  data :: "cell list list"

text \<open>
  \<^verbatim>\<open>to_csv(index=...)\<close>. With the index, the header line starts with the name of the
  index, which is empty for an unnamed index, and every other line starts with the label of
  its row.
\<close>

definition to_csv :: "bool \<Rightarrow> table \<Rightarrow> cell list list" where
  "to_csv with_index t =
     (if with_index
      then (CStr [] # map CStr (columns t)) # map2 (#) (index t) (data t)
      else map CStr (columns t) # data t)"

definition filtered_columns :: "string list" where
  "filtered_columns =
     [''Order Date'', ''Ship Date'', ''Ship Mode'', ''Region'', ''Category'', ''Segment'',
      ''State'', ''City'', ''Product Name'', ''Sub-Category'', ''Customer Name'',
      ''Customer ID'', ''Order ID'', ''Sales'', ''Profit'', ''Quantity'', ''Discount'',
      ''Year'', ''Month'', ''Month-Year'', ''Profit Margin'', ''Shipping Days'']"

text \<open>A missing value is written as the empty field.\<close>

definition text_cell :: "string option \<Rightarrow> cell" where
  "text_cell c = (case c of None \<Rightarrow> CStr [] | Some s \<Rightarrow> CStr s)"

definition cells_of :: "shipped_row \<Rightarrow> cell list" where
  "cells_of r =
     [CDate (Order_Date r), CDate (Ship_Date r), CStr (Ship_Mode r), CStr (Region r),
      CStr (Category r), CStr (Segment r), CStr (State r), CStr (City r),
      text_cell (Product_Name r), CStr (Sub_Category r), text_cell (Customer_Name r),
      CStr (Customer_ID r), CStr (Order_ID r), CNum (Sales r), CNum (Profit r),
      CInt (Quantity r), CNum (Discount r), CInt (Year r), CInt (Month r),
      CPeriod (Month_Year r), CFloat (Profit_Margin r), CInt (Shipping_Days r)]"

text \<open>
  The filtered table at line 389. Its row index holds the labels its rows had in the
  loaded table; they are a parameter here.
\<close>

definition filtered_table :: "cell list \<Rightarrow> shipped_row list \<Rightarrow> table" where
  "filtered_table labels view =
     \<lparr>columns = filtered_columns, index = labels, data = map cells_of view\<rparr>"

definition csv :: "cell list \<Rightarrow> shipped_row list \<Rightarrow> cell list list" where
  "csv labels view = to_csv False (filtered_table labels view)"

text \<open>
  Lines 399 and 400. \<^verbatim>\<open>describe()\<close> is the library's: its result, a table whose row
  index holds the names of the statistics, is a parameter here. \<^verbatim>\<open>to_csv()\<close> without
  an argument writes the index.
\<close>

definition summary_csv :: "table \<Rightarrow> cell list list" where
  "summary_csv summary_stats = to_csv True summary_stats"

text \<open>Lines 410 to 416; \<^verbatim>\<open>reset_index()\<close> leaves the row numbers as the index.\<close>

definition agg_columns :: "string list" where
  "agg_columns =
     [''Category'', ''Sub-Category'', ''Region'', ''Sales'', ''Profit'', ''Quantity'', ''Order ID'']"

definition agg_cells ::
  "(string \<times> string \<times> string) \<times> rat \<times> rat \<times> int \<times> nat \<Rightarrow> cell list" where
  "agg_cells a =
     (case a of ((c, s, r), sales, profit, quantity, orders) \<Rightarrow>
        [CStr c, CStr s, CStr r, CNum sales, CNum profit, CInt quantity, CInt (int orders)])"

definition agg_table :: "'a row_scheme list \<Rightarrow> table" where
  "agg_table view =
     \<lparr>columns = agg_columns,
      index = map (\<lambda>i. CInt (int i)) [0..<length (agg_data view)],
      data = map agg_cells (agg_data view)\<rparr>"

definition agg_csv :: "'a row_scheme list \<Rightarrow> cell list list" where
  "agg_csv view = to_csv False (agg_table view)"

subsection \<open>Example data\<close>

text \<open>
  Three transactions, after the example of the specification: two in the East and one in
  the West, one in each of the first three months of 2023. Day 19362 is 2023-01-05.
\<close>

definition order1 :: csv_row where
  "order1 =
     \<lparr>Order_Date = 19362, Ship_Date = 19366, Ship_Mode = ''Standard Class'',
      Region = ''East'', Category = ''Furniture'', Segment = ''Consumer'',
      State = ''New York'', City = ''New York City'', Product_Name = Some ''Desk'',
      Sub_Category = ''Tables'', Customer_Name = Some ''Ann Lee'', Customer_ID = ''AL-1'',
      Order_ID = ''CA-1'', Sales = 100, Profit = 10, Quantity = 2, Discount = 0\<rparr>"

definition order2 :: csv_row where
  "order2 =
     order1\<lparr>Order_Date := 19398, Ship_Date := 19400, Region := ''West'',
       State := ''California'', City := ''Los Angeles'', Order_ID := ''CA-2'',
       Sales := 200, Profit := 50\<rparr>"

definition order3 :: csv_row where
  "order3 =
     order1\<lparr>Order_Date := 19417, Ship_Date := 19420, Order_ID := ''CA-3'',
       Sales := 50, Profit := - 5\<rparr>"

definition example_df :: "row list" where
  "example_df = load_data [order1, order2, order3]"

text \<open>The whole of 2023, the East only, no state chosen.\<close>

definition example_sb :: sidebar where
  "example_sb =
     \<lparr>date_range = [19358, 19722], regions = [''East''], categories = [''Furniture''],
      segments = [''Consumer''], states = []\<rparr>"



text \<open>A table of sums by state in which two pairs of states tie.\<close>

definition tied_sales :: "(string \<times> rat) list" where
  "tied_sales = [(''Alabama'', 5), (''Ohio'', 7), (''Texas'', 5), (''Utah'', 7)]"

text \<open>A sale of zero with a profit: its margin is infinite.\<close>

definition zero_sale :: csv_row where
  "zero_sale = order1\<lparr>Order_ID := ''CA-4'', Sales := 0, Profit := 10\<rparr>"

definition zero_sale_view :: "row list" where
  "zero_sale_view = load_data [order1, zero_sale]"

text \<open>An order shipped three days before it was placed.\<close>

definition late_order :: csv_row where
  "late_order = order1\<lparr>Ship_Date := 19359\<rparr>"

text \<open>
  The statistics of the numeric columns of the table of the single row \<open>order1\<close>, laid
  out as \<^verbatim>\<open>describe()\<close> lays them out: one row for each statistic, named by the row
  index, and one column for each numeric column. The standard deviation of a single value
  is NaN.
\<close>

definition example_stats :: table where
  "example_stats =
     \<lparr>columns = [''Sales'', ''Profit'', ''Quantity'', ''Discount'', ''Year'', ''Month'',
                 ''Profit Margin'', ''Shipping Days''],
      index = [CStr ''count'', CStr ''mean'', CStr ''std'', CStr ''min'', CStr ''25%'',
               CStr ''50%'', CStr ''75%'', CStr ''max''],
      data =
        [replicate 8 (CFloat (Fin 1)),
         map CFloat [Fin 100, Fin 10, Fin 2, Fin 0, Fin 2023, Fin 1, Fin 10, Fin 4],
         replicate 8 (CFloat NaN),
         map CFloat [Fin 100, Fin 10, Fin 2, Fin 0, Fin 2023, Fin 1, Fin 10, Fin 4],
         map CFloat [Fin 100, Fin 10, Fin 2, Fin 0, Fin 2023, Fin 1, Fin 10, Fin 4],
         map CFloat [Fin 100, Fin 10, Fin 2, Fin 0, Fin 2023, Fin 1, Fin 10, Fin 4],
         map CFloat [Fin 100, Fin 10, Fin 2, Fin 0, Fin 2023, Fin 1, Fin 10, Fin 4],
         map CFloat [Fin 100, Fin 10, Fin 2, Fin 0, Fin 2023, Fin 1, Fin 10, Fin 4]]\<rparr>"

section \<open>Properties\<close>

subsection \<open>Auxiliary facts\<close>

lemma derive_csv_fields:
  "Order_Date (derive r) = Order_Date r" "Ship_Date (derive r) = Ship_Date r"
  "Ship_Mode (derive r) = Ship_Mode r" "Region (derive r) = Region r"
  "Category (derive r) = Category r" "Segment (derive r) = Segment r"
  "State (derive r) = State r" "City (derive r) = City r"
  "Product_Name (derive r) = Product_Name r" "Sub_Category (derive r) = Sub_Category r"
  "Customer_Name (derive r) = Customer_Name r" "Customer_ID (derive r) = Customer_ID r"
  "Order_ID (derive r) = Order_ID r" "Sales (derive r) = Sales r"
  "Profit (derive r) = Profit r" "Quantity (derive r) = Quantity r"
  "Discount (derive r) = Discount r"
  by (simp_all add: derive_def csv_row.defs row.defs)

lemma derive_Profit_Margin:
  "Profit_Margin (derive r) = fmul (fdiv (Fin (Profit r)) (Fin (Sales r))) (Fin 100)"
  by (simp add: derive_def csv_row.defs row.defs)

lemma map_filter_present: "List.map_filter (present column) df = map column df"
  by (simp add: List.map_filter_def present_def comp_def)

lemma groupby_present:
  "groupby (present column) df =
     map (\<lambda>k. (k, filter (\<lambda>r. column r = k) df)) (sort (remdups (map column df)))"
  by (simp add: groupby_def map_filter_present) (simp add: present_def)

lemma mask_fun:
  "mask d0 d1 sb =
     (\<lambda>r. d0 \<le> Order_Date r \<and> Order_Date r \<le> d1 \<and>
          Region r \<in> set (regions sb) \<and> Category r \<in> set (categories sb) \<and>
          Segment r \<in> set (segments sb))"
  by (rule ext) (simp add: mask_def isin_def)

lemma filtered_df_short:
  "length (date_range sb) < 2 \<Longrightarrow> filtered_df df sb = Inl IndexError"
  by (simp add: filtered_df_def)

lemma filtered_df_Inr:
  assumes "2 \<le> length (date_range sb)"
  shows "filtered_df df sb =
     Inr (filter (\<lambda>r. mask (date_range sb ! 0) (date_range sb ! 1) sb r \<and>
                      (states sb = [] \<or> State r \<in> set (states sb))) df)"
  using assms by (simp add: filtered_df_def isin_def Let_def conj_commute)

subsection \<open>The filter\<close>

text \<open>
  C1. With a date range of two dates, the filter returns a table, and a row is in it
  exactly when it is a row of the dataset whose order date lies in the range, both ends
  included, whose region, category and segment are among the chosen ones and, when some
  state is chosen, whose state is among the chosen states. The table is the dataset
  filtered by that predicate, in the dataset's order; with no state chosen it is the
  dataset filtered by the predicate without the condition on the state.
\<close>

theorem filtered_df_membership:
  assumes "date_range sb = [d0, d1]"
  shows "\<exists>view. filtered_df df sb = Inr view \<and>
     (\<forall>r. r \<in> set view \<longleftrightarrow>
        r \<in> set df \<and> d0 \<le> Order_Date r \<and> Order_Date r \<le> d1 \<and>
        Region r \<in> set (regions sb) \<and> Category r \<in> set (categories sb) \<and>
        Segment r \<in> set (segments sb) \<and>
        (states sb \<noteq> [] \<longrightarrow> State r \<in> set (states sb))) \<and>
     view = filter (\<lambda>r. d0 \<le> Order_Date r \<and> Order_Date r \<le> d1 \<and>
                 Region r \<in> set (regions sb) \<and> Category r \<in> set (categories sb) \<and>
                 Segment r \<in> set (segments sb) \<and>
                 (states sb \<noteq> [] \<longrightarrow> State r \<in> set (states sb))) df \<and>
     (states sb = [] \<longrightarrow>
        view = filter (\<lambda>r. d0 \<le> Order_Date r \<and> Order_Date r \<le> d1 \<and>
                 Region r \<in> set (regions sb) \<and> Category r \<in> set (categories sb) \<and>
                 Segment r \<in> set (segments sb)) df)"
proof -
  have len: "2 \<le> length (date_range sb)"
    and d: "date_range sb ! 0 = d0" "date_range sb ! 1 = d1"
    using assms by simp_all
  show ?thesis
    unfolding filtered_df_Inr [OF len] d mask_fun
    by (auto intro: filter_cong)
qed

theorem filtered_df_membership_witness:
  "date_range example_sb = [19358, 19722] \<and>
   filtered_df example_df example_sb = Inr [derive order1, derive order3] \<and>
   derive order2 \<in> set example_df \<and> Region (derive order2) \<notin> set (regions example_sb)"
proof -
  have h: "date_range example_sb = [19358, 19722]"
    by (simp add: example_sb_def)
  from filtered_df_membership [OF h, of example_df]
  obtain view where v: "filtered_df example_df example_sb = Inr view"
    and "view = filter (\<lambda>r. 19358 \<le> Order_Date r \<and> Order_Date r \<le> 19722 \<and>
                 Region r \<in> set (regions example_sb) \<and>
                 Category r \<in> set (categories example_sb) \<and>
                 Segment r \<in> set (segments example_sb) \<and>
                 (states example_sb \<noteq> [] \<longrightarrow> State r \<in> set (states example_sb))) example_df"
    by blast
  then have "view = [derive order1, derive order3]"
    by (simp add: example_df_def example_sb_def load_data_def derive_csv_fields
        order1_def order2_def order3_def)
  with v h show ?thesis
    by (simp add: example_df_def example_sb_def load_data_def derive_csv_fields
        order2_def order1_def)
qed

text \<open>
  C3. With a date range of two dates, an empty choice of regions, of categories or of
  segments leaves no row, whatever the dataset, the dates and the other choices are.
\<close>

theorem empty_selection_matches_nothing:
  assumes "2 \<le> length (date_range sb)"
    and "regions sb = [] \<or> categories sb = [] \<or> segments sb = []"
  shows "filtered_df df sb = Inr []"
  using assms(2) unfolding filtered_df_Inr [OF assms(1)] mask_fun
  by auto

theorem empty_selection_matches_nothing_witness:
  "2 \<le> length (date_range (example_sb\<lparr>categories := []\<rparr>)) \<and>
   categories (example_sb\<lparr>categories := []\<rparr>) = [] \<and>
   example_df \<noteq> [] \<and>
   filtered_df example_df (example_sb\<lparr>categories := []\<rparr>) = Inr []"
proof -
  have len: "2 \<le> length (date_range (example_sb\<lparr>categories := []\<rparr>))"
    by (simp add: example_sb_def)
  have c: "categories (example_sb\<lparr>categories := []\<rparr>) = []"
    by simp
  have "filtered_df example_df (example_sb\<lparr>categories := []\<rparr>) = Inr []"
    using empty_selection_matches_nothing [OF len, of example_df] c by blast
  with len c show ?thesis
    by (simp add: example_df_def load_data_def)
qed

text \<open>
  C4. With a date range of two dates, the filter returns a table whose rows are rows of
  the dataset, in the dataset's order, so it has at most as many rows; and filtering that
  table again with the same sidebar returns it unchanged.
\<close>

theorem filtered_df_subset_idempotent:
  assumes "2 \<le> length (date_range sb)"
  shows "\<exists>view. filtered_df df sb = Inr view \<and>
           set view \<subseteq> set df \<and> subseq view df \<and> length view \<le> length df \<and>
           filtered_df view sb = Inr view"
  unfolding filtered_df_Inr [OF assms]
  by (simp add: subseq_filter_left)

theorem filtered_df_subset_idempotent_witness:
  "2 \<le> length (date_range example_sb) \<and>
   filtered_df example_df example_sb = Inr [derive order1, derive order3] \<and>
   length [derive order1, derive order3] \<le> length example_df \<and>
   filtered_df [derive order1, derive order3] example_sb = Inr [derive order1, derive order3]"
proof -
  have len: "2 \<le> length (date_range example_sb)"
    by (simp add: example_sb_def)
  from filtered_df_subset_idempotent [OF len, of example_df]
  obtain view where v: "filtered_df example_df example_sb = Inr view"
    and i: "filtered_df view example_sb = Inr view"
    by blast
  have "filtered_df example_df example_sb = Inr [derive order1, derive order3]"
    by (simp add: filtered_df_def mask_def isin_def example_df_def example_sb_def
        load_data_def derive_csv_fields order1_def order2_def order3_def)
  with v i len show ?thesis
    by (simp add: example_df_def load_data_def)
qed

subsection \<open>Conservation of sales under grouping\<close>





lemma groupby_keys: "map fst (groupby key df) = sort (remdups (List.map_filter key df))"
  by (simp add: groupby_def comp_def)


















subsection \<open>Top-N selection\<close>

lemma nlargest_length: "0 \<le> n \<Longrightarrow> int (length (nlargest n col t)) \<le> n"
  by (simp add: nlargest_def)

lemma nlargest_descending: "sorted_wrt (\<lambda>a b. col b \<le> col a) (nlargest n col t)"
proof -
  have "sorted (map (\<lambda>r. - col r) (sort_key (\<lambda>r. - col r) t))"
    by (rule sorted_sort_key)
  then have "sorted (take (nat n) (map (\<lambda>r. - col r) (sort_key (\<lambda>r. - col r) t)))"
    by (rule sorted_wrt_take)
  then have "sorted (map (\<lambda>r. - col r) (nlargest n col t))"
    by (simp add: nlargest_def take_map)
  then show ?thesis
    by (simp add: sorted_map)
qed

lemma nlargest_subset: "set (nlargest n col t) \<subseteq> set t"
proof -
  have "set (nlargest n col t) \<subseteq> set (sort_key (\<lambda>r. - col r) t)"
    unfolding nlargest_def by (rule set_take_subset)
  then show ?thesis by simp
qed

lemma nlargest_ties:
  "prefix (filter (\<lambda>r. col r = v) (nlargest n col t)) (filter (\<lambda>r. col r = v) t)"
proof -
  have "prefix (filter (\<lambda>r. - col r = - v) (nlargest n col t))
          (filter (\<lambda>r. - col r = - v) (sort_key (\<lambda>r. - col r) t))"
    unfolding nlargest_def by (intro filter_mono_prefix take_is_prefix)
  moreover have "filter (\<lambda>r. - col r = - v) (sort_key (\<lambda>r. - col r) t) =
      filter (\<lambda>r. - col r = - v) t"
    by (rule sort_key_stable)
  ultimately show ?thesis
    by simp
qed

lemma nlargest_length_min: "length (nlargest n col t) = min (nat n) (length t)"
  by (simp add: nlargest_def)

lemma nlargest_split:
  "mset t = mset (nlargest n col t) + mset (drop (nat n) (sort_key (\<lambda>r. - col r) t))"
proof -
  let ?s = "sort_key (\<lambda>r. - col r) t"
  have "mset (take (nat n) ?s) + mset (drop (nat n) ?s) = mset (take (nat n) ?s @ drop (nat n) ?s)"
    by (rule mset_append [symmetric])
  also have "\<dots> = mset ?s"
    by (simp only: append_take_drop_id)
  also have "\<dots> = mset t"
    by (rule mset_sort)
  finally show ?thesis
    unfolding nlargest_def by (rule sym)
qed

lemma nlargest_mset: "mset (nlargest n col t) \<subseteq># mset t"
proof -
  have "mset (nlargest n col t) \<subseteq>#
      mset (nlargest n col t) + mset (drop (nat n) (sort_key (\<lambda>r. - col r) t))"
    by (rule mset_subset_eq_add_left)
  then show ?thesis
    by (simp only: nlargest_split [symmetric])
qed

lemma nlargest_rest:
  "mset t - mset (nlargest n col t) = mset (drop (nat n) (sort_key (\<lambda>r. - col r) t))"
proof -
  have "mset (nlargest n col t) + mset (drop (nat n) (sort_key (\<lambda>r. - col r) t)) -
      mset (nlargest n col t) = mset (drop (nat n) (sort_key (\<lambda>r. - col r) t))"
    by (rule add_diff_cancel_left')
  then show ?thesis
    by (simp only: nlargest_split [symmetric])
qed

lemma nlargest_largest:
  assumes "x \<in># mset t - mset (nlargest n col t)" and "y \<in> set (nlargest n col t)"
  shows "col x \<le> col y"
proof -
  let ?s = "sort_key (\<lambda>r. - col r) t"
  from assms(1) have x: "x \<in> set (drop (nat n) ?s)"
    by (simp add: nlargest_rest)
  from assms(2) have y: "y \<in> set (take (nat n) ?s)"
    by (simp add: nlargest_def)
  have "sorted (map (\<lambda>r. - col r) (take (nat n) ?s) @ map (\<lambda>r. - col r) (drop (nat n) ?s))"
    by (simp only: map_append [symmetric] append_take_drop_id sorted_sort_key)
  then have "\<forall>a\<in>set (take (nat n) ?s). \<forall>b\<in>set (drop (nat n) ?s). col b \<le> col a"
    by (auto simp: sorted_append)
  with x y show ?thesis
    by blast
qed

text \<open>
  C6. For every table, every column of it and every \<open>n\<close> that is not negative, the top
  \<open>n\<close> selection returns \<open>n\<close> rows, or all the rows when the table has fewer: at most
  \<open>n\<close>. They are in descending order of the column and are rows of the table, each taken
  no more often than the table has it. They are the largest: no row left out has a greater
  value than a row returned. Among the rows of one value it returns the first ones of the
  table, in the table's order: for every value, the returned rows of that value are a prefix
  of the table's rows of that value.
\<close>

theorem nlargest_top_n:
  fixes col :: "'r \<Rightarrow> rat"
  assumes "0 \<le> n"
  shows "int (length (nlargest n col t)) \<le> n \<and>
         length (nlargest n col t) = min (nat n) (length t) \<and>
         sorted_wrt (\<lambda>a b. col b \<le> col a) (nlargest n col t) \<and>
         set (nlargest n col t) \<subseteq> set t \<and>
         mset (nlargest n col t) \<subseteq># mset t \<and>
         (\<forall>x y. x \<in># mset t - mset (nlargest n col t) \<longrightarrow> y \<in> set (nlargest n col t) \<longrightarrow>
                col x \<le> col y) \<and>
         (\<forall>v. prefix (filter (\<lambda>r. col r = v) (nlargest n col t)) (filter (\<lambda>r. col r = v) t))"
proof (intro conjI allI impI)
  show "int (length (nlargest n col t)) \<le> n"
    using assms by (rule nlargest_length)
  show "length (nlargest n col t) = min (nat n) (length t)"
    by (rule nlargest_length_min)
  show "sorted_wrt (\<lambda>a b. col b \<le> col a) (nlargest n col t)"
    by (rule nlargest_descending)
  show "set (nlargest n col t) \<subseteq> set t"
    by (rule nlargest_subset)
  show "mset (nlargest n col t) \<subseteq># mset t"
    by (rule nlargest_mset)
  show "col x \<le> col y"
    if "x \<in># mset t - mset (nlargest n col t)" and "y \<in> set (nlargest n col t)" for x y
    using that by (rule nlargest_largest)
  show "prefix (filter (\<lambda>r. col r = v) (nlargest n col t)) (filter (\<lambda>r. col r = v) t)" for v
    by (rule nlargest_ties)
qed

theorem nlargest_top_n_witness:
  "(0::int) \<le> 3 \<and>
   nlargest 3 snd tied_sales = [(''Ohio'', 7), (''Utah'', 7), (''Alabama'', 5)] \<and>
   int (length (nlargest 3 snd tied_sales)) \<le> 3 \<and>
   length (nlargest 3 snd tied_sales) = min (nat 3) (length tied_sales) \<and>
   prefix (filter (\<lambda>r. snd r = 5) (nlargest 3 snd tied_sales)) (filter (\<lambda>r. snd r = 5) tied_sales)"
proof -
  have h: "(0::int) \<le> 3" by simp
  have e: "nlargest 3 snd tied_sales = [(''Ohio'', 7), (''Utah'', 7), (''Alabama'', 5)]"
    by (simp add: nlargest_def tied_sales_def)
  note t = nlargest_top_n [OF h, of snd tied_sales]
  from t have l: "int (length (nlargest 3 snd tied_sales)) \<le> 3"
    by (elim conjE)
  from t have m: "length (nlargest 3 snd tied_sales) = min (nat 3) (length tied_sales)"
    by (elim conjE)
  from t have "\<forall>v. prefix (filter (\<lambda>r. snd r = v) (nlargest 3 snd tied_sales))
                 (filter (\<lambda>r. snd r = v) tied_sales)"
    by (elim conjE)
  then have p: "prefix (filter (\<lambda>r. snd r = 5) (nlargest 3 snd tied_sales))
             (filter (\<lambda>r. snd r = 5) tied_sales)"
    by (rule spec)
  from h e l m p show ?thesis
    by (intro conjI)
qed

subsection \<open>The margin of a sub-category\<close>


lemma subcat_keys: "map fst (subcat_data view) = sort (remdups (map Sub_Category view))"
  by (simp add: subcat_data_def groupby_present Let_def comp_def)


subsection \<open>The average profit margin\<close>

lemma isfinite_fadd: "isfinite (fadd a b) \<longleftrightarrow> isfinite a \<and> isfinite b"
  by (cases a; cases b) simp_all

lemma isfinite_foldl_fadd:
  "isfinite (foldl fadd a ys) \<longleftrightarrow> isfinite a \<and> (\<forall>y\<in>set ys. isfinite y)"
  by (induction ys arbitrary: a) (auto simp: isfinite_fadd)

lemma isfinite_fsum: "isfinite (fsum ys) \<longleftrightarrow> (\<forall>y\<in>set ys. isfinite y)"
  by (simp add: fsum_def isfinite_foldl_fadd)

lemma foldl_fadd_Fin: "foldl fadd (Fin a) (map Fin qs) = Fin (a + sum_list qs)"
  by (induction qs arbitrary: a) (simp_all add: add.assoc)

lemma fsum_Fin: "fsum (map Fin qs) = Fin (sum_list qs)"
  by (simp add: fsum_def foldl_fadd_Fin)

lemma isfinite_fdiv_count: "0 < n \<Longrightarrow> isfinite (fdiv x (Fin (of_nat n))) \<longleftrightarrow> isfinite x"
  by (cases x) simp_all

lemma mean_skips_nan: "mean (filter (\<lambda>x. \<not> isnan x) xs) = mean xs"
  by (simp add: mean_def)

lemma mean_not_finite:
  assumes "x \<in> set xs" "\<not> isfinite x" "\<not> isnan x"
  shows "\<not> isfinite (mean xs)"
proof -
  let ?ys = "filter (\<lambda>x. \<not> isnan x) xs"
  have in_ys: "x \<in> set ?ys"
    using assms by simp
  then have ne: "?ys \<noteq> []"
    by (auto simp: filter_empty_conv)
  then have pos: "0 < length ?ys"
    by simp
  have "\<not> isfinite (fsum ?ys)"
    using in_ys assms(2) by (auto simp: isfinite_fsum)
  then have "\<not> isfinite (fdiv (fsum ?ys) (Fin (of_nat (length ?ys))))"
    using pos by (simp add: isfinite_fdiv_count)
  then show ?thesis
    using ne by (simp add: mean_def Let_def)
qed

lemma mean_Fin:
  assumes "qs \<noteq> []"
  shows "mean (map Fin qs) = Fin (sum_list qs / of_nat (length qs))"
proof -
  have "filter (\<lambda>x. \<not> isnan x) (map Fin qs) = map Fin qs"
    by (induction qs) simp_all
  then show ?thesis
    using assms by (simp add: mean_def fsum_Fin)
qed

lemma loaded_margin:
  assumes "r \<in> set (load_data raw)"
  shows "Profit_Margin r = fmul (fdiv (Fin (Profit r)) (Fin (Sales r))) (Fin 100)"
proof -
  from assms obtain c where "r = derive c"
    by (auto simp: load_data_def)
  then show ?thesis
    by (simp add: derive_Profit_Margin derive_csv_fields)
qed

lemma margin_cases:
  "fmul (fdiv (Fin p) (Fin s)) (Fin 100) =
     (if s \<noteq> 0 then Fin (100 * p / s)
      else if p = 0 then NaN else if 0 < p then PInf else NInf)"
  by simp

text \<open>
  C2, as amended. For a table of loaded rows, the average profit margin is the mean of the
  margins profit / sales \<times> 100 with the rows of margin NaN (sales and profit both zero)
  left out, and only those. An infinite margin, that of a row whose sales are zero and
  whose profit is not, is not left out: whenever the table has such a row the average is
  not finite. When no row has sales of zero, the average is the arithmetic mean of the
  margins.
\<close>

theorem avg_profit_margin_skips_nan_only:
  assumes "set view \<subseteq> set (load_data raw)"
  shows "avg_profit_margin view =
           avg_profit_margin (filter (\<lambda>r. \<not> (Sales r = 0 \<and> Profit r = 0)) view) \<and>
         ((\<exists>r\<in>set view. Sales r = 0 \<and> Profit r \<noteq> 0) \<longrightarrow>
            \<not> isfinite (avg_profit_margin view)) \<and>
         (view \<noteq> [] \<and> (\<forall>r\<in>set view. Sales r \<noteq> 0) \<longrightarrow>
            avg_profit_margin view =
              Fin (sum_list (map (\<lambda>r. 100 * Profit r / Sales r) view) / of_nat (length view)))"
proof (intro conjI impI)
  have m: "Profit_Margin r = fmul (fdiv (Fin (Profit r)) (Fin (Sales r))) (Fin 100)"
    if "r \<in> set view" for r
    using that assms loaded_margin by blast
  have nan: "isnan (Profit_Margin r) \<longleftrightarrow> Sales r = 0 \<and> Profit r = 0" if "r \<in> set view" for r
    by (simp add: m [OF that])
  have "filter (\<lambda>x. \<not> isnan x) (map Profit_Margin view) =
      map Profit_Margin (filter (\<lambda>r. \<not> (Sales r = 0 \<and> Profit r = 0)) view)"
    unfolding filter_map comp_def
    by (rule arg_cong [where f = "map Profit_Margin"], rule filter_cong) (simp_all add: nan)
  then have "mean (filter (\<lambda>x. \<not> isnan x) (map Profit_Margin view)) =
      mean (map Profit_Margin (filter (\<lambda>r. \<not> (Sales r = 0 \<and> Profit r = 0)) view))"
    by simp
  then show "avg_profit_margin view =
      avg_profit_margin (filter (\<lambda>r. \<not> (Sales r = 0 \<and> Profit r = 0)) view)"
    by (simp only: avg_profit_margin_def mean_skips_nan)
next
  assume "\<exists>r\<in>set view. Sales r = 0 \<and> Profit r \<noteq> 0"
  then obtain r where r: "r \<in> set view" "Sales r = 0" "Profit r \<noteq> 0"
    by blast
  have "Profit_Margin r = fmul (fdiv (Fin (Profit r)) (Fin (Sales r))) (Fin 100)"
    using r(1) assms loaded_margin by blast
  with r have "\<not> isfinite (Profit_Margin r)" "\<not> isnan (Profit_Margin r)"
    by simp_all
  moreover have "Profit_Margin r \<in> set (map Profit_Margin view)"
    using r(1) by simp
  ultimately show "\<not> isfinite (avg_profit_margin view)"
    unfolding avg_profit_margin_def by (intro mean_not_finite)
next
  assume a: "view \<noteq> [] \<and> (\<forall>r\<in>set view. Sales r \<noteq> 0)"
  let ?qs = "map (\<lambda>r. 100 * Profit r / Sales r) view"
  have eq: "map Profit_Margin view = map Fin ?qs"
  proof (simp only: map_map comp_def, rule map_cong [OF refl])
    fix r assume r: "r \<in> set view"
    then have "Profit_Margin r = fmul (fdiv (Fin (Profit r)) (Fin (Sales r))) (Fin 100)"
      using assms loaded_margin by blast
    with a r show "Profit_Margin r = Fin (100 * Profit r / Sales r)"
      by simp
  qed
  have "?qs \<noteq> []"
    using a by simp
  then have "mean (map Fin ?qs) = Fin (sum_list ?qs / of_nat (length ?qs))"
    by (rule mean_Fin)
  then show "avg_profit_margin view =
      Fin (sum_list (map (\<lambda>r. 100 * Profit r / Sales r) view) / of_nat (length view))"
    unfolding avg_profit_margin_def eq by simp
qed

lemma zero_sale_filtered:
  "filtered_df zero_sale_view example_sb = Inr zero_sale_view"
  by (simp add: filtered_df_def mask_def isin_def zero_sale_view_def example_sb_def
      load_data_def derive_csv_fields order1_def zero_sale_def)

lemma zero_sale_margins:
  "map Profit_Margin zero_sale_view = [Fin 10, PInf]"
  by (simp add: zero_sale_view_def load_data_def derive_Profit_Margin order1_def zero_sale_def)

text \<open>
  C2, as stated, fails: the filtered table of the two rows below has a row with sales of
  zero, its finite margins have the mean 10, and the average the script reports is
  infinite.
\<close>

theorem avg_profit_margin_counterexample:
  "filtered_df zero_sale_view example_sb = Inr zero_sale_view \<and>
   map Sales zero_sale_view = [100, 0] \<and>
   avg_profit_margin zero_sale_view = PInf \<and>
   finite_margin_mean zero_sale_view = Fin 10"
proof (intro conjI)
  show "filtered_df zero_sale_view example_sb = Inr zero_sale_view"
    by (rule zero_sale_filtered)
  show "map Sales zero_sale_view = [100, 0]"
    by (simp add: zero_sale_view_def load_data_def derive_csv_fields order1_def zero_sale_def)
  show "avg_profit_margin zero_sale_view = PInf"
    by (simp add: avg_profit_margin_def zero_sale_margins mean_def fsum_def)
  show "finite_margin_mean zero_sale_view = Fin 10"
    by (simp add: finite_margin_mean_def zero_sale_margins mean_def fsum_def)
qed

theorem avg_profit_margin_skips_nan_only_witness:
  "set zero_sale_view \<subseteq> set (load_data [order1, zero_sale]) \<and>
   derive zero_sale \<in> set zero_sale_view \<and>
   Sales (derive zero_sale) = 0 \<and> Profit (derive zero_sale) \<noteq> 0 \<and>
   \<not> isfinite (avg_profit_margin zero_sale_view)"
proof -
  have h: "set zero_sale_view \<subseteq> set (load_data [order1, zero_sale])"
    by (simp add: zero_sale_view_def)
  have i: "derive zero_sale \<in> set zero_sale_view"
    by (simp add: zero_sale_view_def load_data_def)
  have s: "Sales (derive zero_sale) = 0" and p: "Profit (derive zero_sale) \<noteq> 0"
    by (simp_all add: derive_csv_fields zero_sale_def)
  from i s p have e: "\<exists>r\<in>set zero_sale_view. Sales r = 0 \<and> Profit r \<noteq> 0"
    by (intro bexI [of _ "derive zero_sale"] conjI)
  have "\<not> isfinite (avg_profit_margin zero_sale_view)"
    by (rule mp [OF conjunct1 [OF conjunct2 [OF avg_profit_margin_skips_nan_only [OF h]]] e])
  with h i s p show ?thesis
    by (intro conjI)
qed

subsection \<open>The script leaves the loaded table alone\<close>

lemma app_short: "length (date_range sb) < 2 \<Longrightarrow> app raw sb = Inl IndexError"
  by (simp add: app_def new_frame_def empty_store_def)

lemma app_result:
  assumes "2 \<le> length (date_range sb)"
    and "filtered_df (load_data raw) sb = Inr view"
  shows "\<exists>out. app raw sb = Inr out \<and>
           heap (store_after out) (df_addr out) = Some (Frame (load_data raw)) \<and>
           filtered_addr out \<noteq> df_addr out \<and>
           heap (store_after out) (filtered_addr out) =
             Some (if view \<noteq> [] then Shipped (with_shipping_days view) else Frame view) \<and>
           warnings out = (if view \<noteq> [] then [] else [no_data_message])"
proof -
  let ?f1 = "filter (mask (date_range sb ! 0) (date_range sb ! 1) sb) (load_data raw)"
  show ?thesis
  proof (cases "states sb = []")
    case True
    with assms have v: "view = ?f1"
      by (simp add: filtered_df_def)
    show ?thesis
      using assms(1) True
      by (simp add: app_def new_frame_def empty_store_def getitem_def
          setitem_shipping_days_def v)
  next
    case False
    with assms have v: "view = filter (\<lambda>r. isin (State r) (states sb)) ?f1"
      by (simp add: filtered_df_def)
    show ?thesis
      using assms(1) False
      by (simp add: app_def new_frame_def empty_store_def getitem_def
          setitem_shipping_days_def v)
  qed
qed

text \<open>
  C7. When a run of the script ends without an exception, the object the name \<^verbatim>\<open>df\<close>
  is bound to still holds the table \<^verbatim>\<open>load_data\<close> returned, row for row and column
  for column: the filter built new tables, and the column \<^verbatim>\<open>Shipping Days\<close> was
  assigned to the object \<^verbatim>\<open>filtered_df\<close> is bound to, which is another object.
\<close>

theorem app_leaves_dataset:
  assumes "app raw sb = Inr out"
  shows "heap (store_after out) (df_addr out) = Some (Frame (load_data raw)) \<and>
         filtered_addr out \<noteq> df_addr out"
proof -
  have len: "2 \<le> length (date_range sb)"
  proof (rule ccontr)
    assume "\<not> 2 \<le> length (date_range sb)"
    then have "app raw sb = Inl IndexError"
      by (intro app_short) simp
    with assms show False by simp
  qed
  then obtain view where "filtered_df (load_data raw) sb = Inr view"
    by (auto simp: filtered_df_Inr)
  from app_result [OF len this] assms show ?thesis
    by auto
qed

lemma example_filtered:
  "filtered_df (load_data [order1, order2, order3]) example_sb = Inr [derive order1, derive order3]"
  by (simp add: filtered_df_def mask_def isin_def example_sb_def
      load_data_def derive_csv_fields order1_def order2_def order3_def)

theorem app_leaves_dataset_witness:
  "map_sum id (\<lambda>out. heap (store_after out) (df_addr out))
     (app [order1, order2, order3] example_sb) = Inr (Some (Frame example_df)) \<and>
   map_sum id (\<lambda>out. heap (store_after out) (filtered_addr out))
     (app [order1, order2, order3] example_sb) =
       Inr (Some (Shipped (with_shipping_days [derive order1, derive order3])))"
proof -
  have len: "2 \<le> length (date_range example_sb)"
    by (simp add: example_sb_def)
  from app_result [OF len example_filtered]
  obtain out where o: "app [order1, order2, order3] example_sb = Inr out"
    and f: "heap (store_after out) (filtered_addr out) =
      Some (Shipped (with_shipping_days [derive order1, derive order3]))"
    by auto
  have d: "heap (store_after out) (df_addr out) = Some (Frame (load_data [order1, order2, order3]))"
    using app_leaves_dataset [OF o] by (rule conjunct1)
  show ?thesis
    unfolding o example_df_def by (simp add: d f)
qed

subsection \<open>Shipping days\<close>

lemma shipped_fields:
  "Shipping_Days (row.extend r (shipped_row.fields d)) = d"
  "Ship_Mode (row.extend r (shipped_row.fields d)) = Ship_Mode r"
  "Ship_Date (row.extend r (shipped_row.fields d)) = Ship_Date r"
  "Order_Date (row.extend r (shipped_row.fields d)) = Order_Date r"
  "row.truncate (row.extend r (shipped_row.fields d)) = r"
  by (simp_all add: row.defs shipped_row.defs)

lemma shipping_days_column:
  "map Shipping_Days (with_shipping_days view) = map (\<lambda>r. Ship_Date r - Order_Date r) view"
  by (simp add: with_shipping_days_def shipped_fields days_between_def)

lemma shipping_days_rows: "map row.truncate (with_shipping_days view) = view"
  by (simp add: with_shipping_days_def shipped_fields comp_def)

lemma shipping_days_filter:
  "filter (\<lambda>r. Ship_Mode r = k) (with_shipping_days view) =
   with_shipping_days (filter (\<lambda>r. Ship_Mode r = k) view)"
  by (simp add: with_shipping_days_def filter_map comp_def shipped_fields)

lemma mean_of_ints:
  assumes "ds \<noteq> []"
  shows "mean (map (\<lambda>d. Fin (of_int d)) ds) = Fin (of_int (sum_list ds) / of_nat (length ds))"
proof -
  let ?qs = "map (of_int :: int \<Rightarrow> rat) ds"
  have "?qs \<noteq> []"
    using assms by simp
  then have "mean (map Fin ?qs) = Fin (sum_list ?qs / of_nat (length ?qs))"
    by (rule mean_Fin)
  then show ?thesis
    by (simp add: comp_def sum_list_of_int)
qed

lemma ship_time_rows:
  assumes "(k, m) \<in> set (ship_time (with_shipping_days view))"
  shows "k \<in> Ship_Mode ` set view \<and>
         m = Fin (of_int (sum_list (map (\<lambda>r. Ship_Date r - Order_Date r)
                                    (filter (\<lambda>r. Ship_Mode r = k) view))) /
                  of_nat (length (filter (\<lambda>r. Ship_Mode r = k) view)))"
proof -
  let ?g = "filter (\<lambda>r. Ship_Mode r = k) view"
  from assms have k: "k \<in> Ship_Mode ` set (with_shipping_days view)"
    and m: "m = mean (map (\<lambda>r. Fin (of_int (Shipping_Days r)))
                 (filter (\<lambda>r. Ship_Mode r = k) (with_shipping_days view)))"
    by (auto simp: ship_time_def groupby_present)
  from k have kv: "k \<in> Ship_Mode ` set view"
    by (auto simp: with_shipping_days_def shipped_fields)
  then have ne: "map (\<lambda>r. Ship_Date r - Order_Date r) ?g \<noteq> []"
    by (auto simp: filter_empty_conv)
  have "map (\<lambda>r. Fin (of_int (Shipping_Days r))) (with_shipping_days ?g) =
      map (\<lambda>d. Fin (of_int d)) (map (\<lambda>r. Ship_Date r - Order_Date r) ?g)"
    by (simp add: with_shipping_days_def shipped_fields days_between_def comp_def)
  with m have "m = mean (map (\<lambda>d. Fin (of_int d)) (map (\<lambda>r. Ship_Date r - Order_Date r) ?g))"
    by (simp only: shipping_days_filter)
  also have "\<dots> = Fin (of_int (sum_list (map (\<lambda>r. Ship_Date r - Order_Date r) ?g)) /
                  of_nat (length (map (\<lambda>r. Ship_Date r - Order_Date r) ?g)))"
    using ne by (rule mean_of_ints)
  finally show ?thesis
    using kv by simp
qed

text \<open>
  C8, as amended. After a run that ends without an exception, the filtered table, when it
  has a row, carries the column \<^verbatim>\<open>Shipping Days\<close>: for every row the ship date minus
  the order date in whole days, negative when the ship date is the earlier one, the other
  columns unchanged. The script warns only of an empty table: with a row in the table it
  passes nothing to \<^verbatim>\<open>st.warning\<close>, whatever the shipping days are. A row of the
  ship-mode summary holds the arithmetic mean of the shipping days of the mode's rows,
  negative values included.
\<close>

theorem shipping_days_unchecked:
  assumes "app raw sb = Inr out"
  shows "\<exists>view. filtered_df (load_data raw) sb = Inr view \<and>
           heap (store_after out) (filtered_addr out) =
             Some (if view \<noteq> [] then Shipped (with_shipping_days view) else Frame view) \<and>
           map Shipping_Days (with_shipping_days view) =
             map (\<lambda>r. Ship_Date r - Order_Date r) view \<and>
           map row.truncate (with_shipping_days view) = view \<and>
           warnings out = (if view \<noteq> [] then [] else [no_data_message]) \<and>
           (\<forall>(k, m) \<in> set (ship_time (with_shipping_days view)).
              k \<in> Ship_Mode ` set view \<and>
              m = Fin (of_int (sum_list (map (\<lambda>r. Ship_Date r - Order_Date r)
                                         (filter (\<lambda>r. Ship_Mode r = k) view))) /
                       of_nat (length (filter (\<lambda>r. Ship_Mode r = k) view))))"
proof -
  have len: "2 \<le> length (date_range sb)"
  proof (rule ccontr)
    assume "\<not> 2 \<le> length (date_range sb)"
    then have "app raw sb = Inl IndexError"
      by (intro app_short) simp
    with assms show False by simp
  qed
  then obtain view where v: "filtered_df (load_data raw) sb = Inr view"
    by (auto simp: filtered_df_Inr)
  from app_result [OF len v] assms
  have h: "heap (store_after out) (filtered_addr out) =
             Some (if view \<noteq> [] then Shipped (with_shipping_days view) else Frame view)"
    and w: "warnings out = (if view \<noteq> [] then [] else [no_data_message])"
    by auto
  have t: "\<forall>(k, m) \<in> set (ship_time (with_shipping_days view)).
              k \<in> Ship_Mode ` set view \<and>
              m = Fin (of_int (sum_list (map (\<lambda>r. Ship_Date r - Order_Date r)
                                         (filter (\<lambda>r. Ship_Mode r = k) view))) /
                       of_nat (length (filter (\<lambda>r. Ship_Mode r = k) view)))"
    using ship_time_rows by blast
  from v h w t shipping_days_column [of view] shipping_days_rows [of view]
  show ?thesis
    by (intro exI [of _ view] conjI)
qed

lemma late_filtered:
  "filtered_df (load_data [late_order]) example_sb = Inr [derive late_order]"
  by (simp add: filtered_df_def mask_def isin_def example_sb_def
      load_data_def derive_csv_fields order1_def late_order_def)

text \<open>
  C8, as stated, fails: for an order shipped three days before it was placed, the run
  passes nothing to \<^verbatim>\<open>st.warning\<close>, the shipping days are \<open>- 3\<close>, and the mean of
  the ship mode is \<open>- 3\<close>.
\<close>

theorem negative_shipping_days_counterexample:
  "map_sum id warnings (app [late_order] example_sb) = Inr [] \<and>
   map_sum id (\<lambda>out. heap (store_after out) (filtered_addr out)) (app [late_order] example_sb) =
     Inr (Some (Shipped (with_shipping_days [derive late_order]))) \<and>
   map Shipping_Days (with_shipping_days [derive late_order]) = [- 3] \<and>
   ship_time (with_shipping_days [derive late_order]) = [(''Standard Class'', Fin (- 3))]"
proof -
  have len: "2 \<le> length (date_range example_sb)"
    by (simp add: example_sb_def)
  from app_result [OF len late_filtered]
  obtain out where o: "app [late_order] example_sb = Inr out"
    and f: "heap (store_after out) (filtered_addr out) =
      Some (Shipped (with_shipping_days [derive late_order]))"
    and w: "warnings out = []"
    by auto
  have a: "map_sum id warnings (app [late_order] example_sb) = Inr []"
    unfolding o by (simp add: w)
  have b: "map_sum id (\<lambda>out. heap (store_after out) (filtered_addr out))
      (app [late_order] example_sb) = Inr (Some (Shipped (with_shipping_days [derive late_order])))"
    unfolding o by (simp add: f)
  have c: "map Shipping_Days (with_shipping_days [derive late_order]) = [- 3]"
    by (simp add: shipping_days_column derive_csv_fields late_order_def order1_def)
  have d: "ship_time (with_shipping_days [derive late_order]) = [(''Standard Class'', Fin (- 3))]"
    by (simp add: ship_time_def groupby_present with_shipping_days_def shipped_fields
        days_between_def derive_csv_fields mean_def fsum_def late_order_def order1_def)
  from a b c d show ?thesis
    by (intro conjI)
qed

theorem shipping_days_unchecked_witness:
  "map_sum id warnings (app [order1, order2, order3] example_sb) = Inr [] \<and>
   filtered_df (load_data [order1, order2, order3]) example_sb =
     Inr [derive order1, derive order3] \<and>
   map Shipping_Days (with_shipping_days [derive order1, derive order3]) = [4, 3] \<and>
   ship_time (with_shipping_days [derive order1, derive order3]) =
     [(''Standard Class'', Fin (7 / 2))]"
proof -
  have len: "2 \<le> length (date_range example_sb)"
    by (simp add: example_sb_def)
  from app_result [OF len example_filtered]
  obtain out where o: "app [order1, order2, order3] example_sb = Inr out"
    by auto
  from shipping_days_unchecked [OF o]
  obtain view where v: "filtered_df (load_data [order1, order2, order3]) example_sb = Inr view"
    and w: "warnings out = (if view \<noteq> [] then [] else [no_data_message])"
    and c: "map Shipping_Days (with_shipping_days view) =
             map (\<lambda>r. Ship_Date r - Order_Date r) view"
    by blast
  from v have view: "view = [derive order1, derive order3]"
    by (simp only: example_filtered sum.inject)
  have a: "map_sum id warnings (app [order1, order2, order3] example_sb) = Inr []"
    unfolding o using w by (simp add: view)
  have b: "map Shipping_Days (with_shipping_days [derive order1, derive order3]) = [4, 3]"
    using c unfolding view by (simp add: derive_csv_fields order1_def order3_def)
  have d: "ship_time (with_shipping_days [derive order1, derive order3]) =
      [(''Standard Class'', Fin (7 / 2))]"
    by (simp add: ship_time_def groupby_present with_shipping_days_def shipped_fields
        days_between_def derive_csv_fields mean_def fsum_def order1_def order3_def)
  from a example_filtered b d show ?thesis
    by (intro conjI)
qed

subsection \<open>Export\<close>

lemma to_csv_without_index: "to_csv False t = map CStr (columns t) # data t"
  by (simp add: to_csv_def)

lemma map2_Cons_hd: "length xs = length yss \<Longrightarrow> map hd (map2 (#) xs yss) = xs"
  by (induction xs yss rule: list_induct2) simp_all

lemma map2_Cons_tl: "length xs = length yss \<Longrightarrow> map tl (map2 (#) xs yss) = yss"
  by (induction xs yss rule: list_induct2) simp_all

lemma length_cells_of: "length (cells_of r) = length filtered_columns"
  by (simp add: cells_of_def filtered_columns_def)

lemma length_agg_cells: "length (agg_cells a) = length agg_columns"
  by (cases a) (simp add: agg_cells_def agg_columns_def split: prod.splits)

text \<open>
  C9, as amended. The export of the filtered table and the export of the aggregate by
  category, sub-category and region each start with a header line that holds the column
  names in the table's column order, followed by one line for each row that holds the
  cells of the row in that order and nothing else: every line has as many fields as there
  are columns, and the row index is not written. The export of the statistics is written
  with its row index: its header line starts with an empty field before the column names,
  and each following line starts with the label of its row, the name of the statistic,
  before the cells of the row.
\<close>

theorem export_lines:
  "csv labels view = map CStr filtered_columns # map cells_of view \<and>
   (\<forall>line \<in> set (csv labels view). length line = length filtered_columns) \<and>
   agg_csv view' = map CStr agg_columns # map agg_cells (agg_data view') \<and>
   (\<forall>line \<in> set (agg_csv view'). length line = length agg_columns) \<and>
   hd (summary_csv stats) = CStr [] # map CStr (columns stats) \<and>
   (length (index stats) = length (data stats) \<longrightarrow>
      map hd (tl (summary_csv stats)) = index stats \<and>
      map tl (tl (summary_csv stats)) = data stats)"
proof (intro conjI impI ballI)
  show a: "csv labels view = map CStr filtered_columns # map cells_of view"
    by (simp add: csv_def filtered_table_def to_csv_def)
  show "length line = length filtered_columns" if "line \<in> set (csv labels view)" for line
    using that unfolding a by (auto simp: length_cells_of)
  show c: "agg_csv view' = map CStr agg_columns # map agg_cells (agg_data view')"
    by (simp add: agg_csv_def agg_table_def to_csv_def)
  show "length line = length agg_columns" if "line \<in> set (agg_csv view')" for line
    using that unfolding c by (auto simp: length_agg_cells)
  show "hd (summary_csv stats) = CStr [] # map CStr (columns stats)"
    by (simp add: summary_csv_def to_csv_def)
next
  assume l: "length (index stats) = length (data stats)"
  then show "map hd (tl (summary_csv stats)) = index stats"
    by (simp add: summary_csv_def to_csv_def map2_Cons_hd del: map_map)
  from l show "map tl (tl (summary_csv stats)) = data stats"
    by (simp add: summary_csv_def to_csv_def map2_Cons_tl del: map_map)
qed

text \<open>
  C9, as stated, fails for the statistics: their export is not the header of column names
  followed by the rows of cells; the first field of its lines is the empty index name and
  then the labels of the row index.
\<close>

theorem summary_csv_counterexample:
  "summary_csv example_stats \<noteq> map CStr (columns example_stats) # data example_stats \<and>
   map hd (summary_csv example_stats) =
     [CStr [], CStr ''count'', CStr ''mean'', CStr ''std'', CStr ''min'', CStr ''25%'',
      CStr ''50%'', CStr ''75%'', CStr ''max'']"
  by (simp add: summary_csv_def to_csv_def example_stats_def)

theorem export_lines_witness:
  "length (index example_stats) = length (data example_stats) \<and>
   map hd (tl (summary_csv example_stats)) = index example_stats \<and>
   map tl (tl (summary_csv example_stats)) = data example_stats \<and>
   hd (csv [CInt 0, CInt 2] (with_shipping_days [derive order1, derive order3])) =
     map CStr filtered_columns \<and>
   length (csv [CInt 0, CInt 2] (with_shipping_days [derive order1, derive order3])) = 3"
proof -
  have l: "length (index example_stats) = length (data example_stats)"
    by (simp add: example_stats_def)
  note t = export_lines [of "[CInt 0, CInt 2]" "with_shipping_days [derive order1, derive order3]"
      "[] :: row list" example_stats]
  from t l have h: "map hd (tl (summary_csv example_stats)) = index example_stats"
    and d: "map tl (tl (summary_csv example_stats)) = data example_stats"
    by blast+
  from t have a: "csv [CInt 0, CInt 2] (with_shipping_days [derive order1, derive order3]) =
      map CStr filtered_columns # map cells_of (with_shipping_days [derive order1, derive order3])"
    by (rule conjunct1)
  have x: "hd (csv [CInt 0, CInt 2] (with_shipping_days [derive order1, derive order3])) =
     map CStr filtered_columns"
    unfolding a by simp
  have y: "length (csv [CInt 0, CInt 2] (with_shipping_days [derive order1, derive order3])) = 3"
    unfolding a by (simp add: with_shipping_days_def)
  from l h d x y show ?thesis
    by (intro conjI)
qed

end
